theory Spec2Isabelle
  imports Main
begin

section \<open>HSA intrinsic lowering rules of \<^verbatim>\<open>numba/hsa/hsaimpl.py\<close>\<close>

text \<open>
  The module lowers GPU intrinsics (work-item ids, atomic add, shared-memory arrays) to LLVM
  IR through the host compiler's builder. The model keeps the emitted IR symbolic: a value is
  the expression that computes it, the builder is the module's table of globals together with
  the trace of emitted instructions, and every \<^verbatim>\<open>raise\<close> of the source is an \<open>Inl\<close>
  result paired with the builder as it stands at that moment.
\<close>

subsection \<open>Types and values\<close>

text \<open>Numba types, as far as this module looks into them: \<^verbatim>\<open>types.Array(dtype, ndim, layout)\<close>,
  \<^verbatim>\<open>types.UniTuple(dtype, count)\<close>, \<^verbatim>\<open>types.Tuple(types)\<close>; every other type is a name.\<close>

datatype nbtype =
    Scalar string
  | Array nbtype nat string
  | UniTuple nbtype nat
  | Tuple "nbtype list"

text \<open>LLVM types. \<open>PointerTy pointee addrspace\<close>, \<open>ArrayTy element count\<close>,
  \<open>FunctionTy return args\<close>.\<close>

datatype lltype =
    NamedTy string
  | PointerTy lltype int
  | ArrayTy lltype int
  | FunctionTy lltype "lltype list"

text \<open>LLVM values, symbolically. \<open>Call callee args\<close> is the result of \<^verbatim>\<open>builder.call\<close> on the
  global named \<open>callee\<close>; \<open>Cast v fromty toty\<close> is \<^verbatim>\<open>context.cast(builder, v, fromty, toty)\<close>.\<close>

datatype llvalue =
    Arg string
  | Constant nbtype int
  | NullConstant lltype
  | GlobalRef string
  | Call string "llvalue list"
  | Cast llvalue nbtype nbtype
  | ExtractValue llvalue nat
  | AddrSpaceCast llvalue int
  | Bitcast llvalue lltype
  | PackArray "llvalue list"
  | ItemPointer llvalue "llvalue list"

datatype error =
    TypeError_expecting nbtype nbtype
  | TypeError_indexing nat nat
  | ValueError_array_length
  | TypeError_unsupported_type nbtype
  | NotImplementedError_addrspace int
  | TypeError_reduce_empty
  | ValueError_unpack nat
  | TypeError_no_len nbtype
  | AttributeError string
  | KeyError_DATALAYOUT nat
  | ValueError_format
  | IndexError_format nat

record signature =
  return_type :: nbtype
  sig_args :: "nbtype list"

text \<open>The array structure \<^verbatim>\<open>_make_array\<close> fills in and returns.\<close>

record array_object =
  ary_type :: nbtype
  ary_data :: llvalue
  ary_shape :: llvalue
  ary_strides :: llvalue

text \<open>A global of the LLVM module: a function declaration or a global variable, with the
  attributes this module assigns.\<close>

datatype global_kind = FunctionKind | VariableKind

record global_value =
  g_kind :: global_kind
  g_type :: lltype
  g_addrspace :: int
  calling_convention :: string
  linkage :: string
  initializer :: "llvalue option"

text \<open>The builder: the globals of its module in insertion order (\<^verbatim>\<open>cgutils.get_module(builder)\<close>
  is the \<open>module_globals\<close> field) and the instructions emitted so far. A reference to a global
  object (what \<^verbatim>\<open>get_or_insert_function\<close> and \<^verbatim>\<open>add_global_variable\<close> return) is its position in
  \<open>module_globals\<close>; assigning an attribute of the object updates that position.\<close>

record builder =
  module_globals :: "(string \<times> global_value) list"
  instructions :: "llvalue list"

text \<open>What the module imports and does not define: the Itanium mangler, the constants of
  \<^verbatim>\<open>target\<close>, the named types of \<^verbatim>\<open>types\<close>, the target context's type mapping, the data layout
  table of \<^verbatim>\<open>hlc\<close> and llvmlite's naming of globals. They are parameters of the model.\<close>

record env =
  mangle_c :: "string \<Rightarrow> string list \<Rightarrow> string"
  mangle_type :: "nbtype \<Rightarrow> string"
  CC_SPIR_FUNC :: string
  SPIR_LOCAL_ADDRSPACE :: int
  SPIR_GENERIC_ADDRSPACE :: int
  LINKAGE_INTERNAL :: string
  intp :: nbtype
  uintp :: nbtype
  number_domain :: "nbtype set"
  get_value_type :: "nbtype \<Rightarrow> lltype"
  get_data_type :: "nbtype \<Rightarrow> lltype"
  data_pointer_type :: "nbtype \<Rightarrow> lltype"
  address_size :: nat
  DATALAYOUT :: "nat \<Rightarrow> string option"
  get_abi_size :: "lltype \<Rightarrow> string \<Rightarrow> int"
  get_unique_name :: "string list \<Rightarrow> string \<Rightarrow> string"

subsection \<open>Python's \<^verbatim>\<open>str\<close> of an integer and \<^verbatim>\<open>str.format\<close>\<close>

definition digit_char :: "nat \<Rightarrow> char" where
  "digit_char d = ''0123456789'' ! (d mod 10)"

fun str_nat :: "nat \<Rightarrow> string" where
  "str_nat n = (if n < 10 then [digit_char n] else str_nat (n div 10) @ [digit_char (n mod 10)])"

declare str_nat.simps [simp del]

definition str_int :: "int \<Rightarrow> string" where
  "str_int i = (if i < 0 then CHR ''-'' # str_nat (nat (- i)) else str_nat (nat i))"

text \<open>The value of a decimal digit is its position among the digits.\<close>

fun position :: "char \<Rightarrow> string \<Rightarrow> nat option" where
  "position c [] = None"
| "position c (d # ds) = (if c = d then Some 0 else map_option Suc (position c ds))"

definition digit_val :: "char \<Rightarrow> nat option" where
  "digit_val c = position c ''0123456789''"

text \<open>The number a replacement field names, \<open>None\<close> when the field is not a decimal number.\<close>

fun field_index :: "string \<Rightarrow> nat \<Rightarrow> nat option" where
  "field_index [] n = Some n"
| "field_index (c # cs) n =
     (case digit_val c of None \<Rightarrow> None | Some d \<Rightarrow> field_index cs (10 * n + d))"

text \<open>\<^verbatim>\<open>template.format(*vals)\<close> for templates whose replacement fields are positional
  (\<^verbatim>\<open>{0}\<close>, \<^verbatim>\<open>{1}\<close>, ...), the only kind \<^verbatim>\<open>_atomic_mangle\<close> uses; \<open>vals\<close> holds the \<^verbatim>\<open>str\<close> of each
  argument. The second argument is the replacement field being read, if any.\<close>

fun format_loop :: "string \<Rightarrow> string option \<Rightarrow> string list \<Rightarrow> string \<Rightarrow> error + string" where
  "format_loop [] None vals out = Inr out"
| "format_loop [] (Some f) vals out = Inl ValueError_format"
| "format_loop (c # cs) None vals out =
     (if c = CHR ''{'' then format_loop cs (Some []) vals out
      else if c = CHR ''}'' then Inl ValueError_format
      else format_loop cs None vals (out @ [c]))"
| "format_loop (c # cs) (Some f) vals out =
     (if c = CHR ''}'' then
        (case (if f = [] then None else field_index f 0) of
           None \<Rightarrow> Inl ValueError_format
         | Some i \<Rightarrow>
             if i < length vals then format_loop cs None vals (out @ vals ! i)
             else Inl (IndexError_format i))
      else format_loop cs (Some (f @ [c])) vals out)"

definition format :: "string \<Rightarrow> string list \<Rightarrow> error + string" where
  "format template vals = format_loop template None vals []"


subsection \<open>The builder and the module\<close>

fun is_call :: "llvalue \<Rightarrow> bool" where
  "is_call (Call callee vs) = True"
| "is_call v = False"

definition emit :: "llvalue \<Rightarrow> builder \<Rightarrow> builder" where
  "emit v b = b\<lparr>instructions := instructions b @ [v]\<rparr>"

text \<open>Position of the first global with the given name.\<close>

fun index_of :: "string \<Rightarrow> (string \<times> global_value) list \<Rightarrow> nat option" where
  "index_of name [] = None"
| "index_of name (x # xs) =
     (if fst x = name then Some 0 else map_option Suc (index_of name xs))"

definition new_global :: "global_kind \<Rightarrow> lltype \<Rightarrow> int \<Rightarrow> global_value" where
  "new_global k ty addrspace =
     \<lparr>g_kind = k, g_type = ty, g_addrspace = addrspace, calling_convention = [],
      linkage = [], initializer = None\<rparr>"

text \<open>llvmlite's \<^verbatim>\<open>Module.get_or_insert_function(fnty, name)\<close>: the global of that name if the
  module has one, a new function declaration otherwise.\<close>

definition get_or_insert_function :: "builder \<Rightarrow> lltype \<Rightarrow> string \<Rightarrow> nat \<times> builder" where
  "get_or_insert_function b fnty name =
     (case index_of name (module_globals b) of
        Some i \<Rightarrow> (i, b)
      | None \<Rightarrow>
          (length (module_globals b),
           b\<lparr>module_globals := module_globals b @ [(name, new_global FunctionKind fnty 0)]\<rparr>))"

text \<open>llvmlite's \<^verbatim>\<open>Module.add_global_variable(ty, name, addrspace)\<close>: a new global variable under
  a name derived from \<open>name\<close> that the module does not use yet.\<close>

definition add_global_variable ::
  "env \<Rightarrow> builder \<Rightarrow> lltype \<Rightarrow> string \<Rightarrow> int \<Rightarrow> nat \<times> builder" where
  "add_global_variable e b ty name addrspace =
     (let uname = get_unique_name e (map fst (module_globals b)) name in
      (length (module_globals b),
       b\<lparr>module_globals := module_globals b @ [(uname, new_global VariableKind ty addrspace)]\<rparr>))"

definition update_global :: "nat \<Rightarrow> (global_value \<Rightarrow> global_value) \<Rightarrow> builder \<Rightarrow> builder" where
  "update_global i f b =
     b\<lparr>module_globals :=
         (module_globals b)[i := (fst (module_globals b ! i), f (snd (module_globals b ! i)))]\<rparr>"

definition global_name :: "builder \<Rightarrow> nat \<Rightarrow> string" where
  "global_name b i = fst (module_globals b ! i)"

text \<open>\<^verbatim>\<open>builder.call(fn, args)\<close>.\<close>

definition call :: "builder \<Rightarrow> nat \<Rightarrow> llvalue list \<Rightarrow> llvalue \<times> builder" where
  "call b fn vs = (let v = Call (global_name b fn) vs in (v, emit v b))"

text \<open>\<^verbatim>\<open>context.cast(builder, val, fromty, toty)\<close>: host code, kept as one symbolic instruction.\<close>

definition cast :: "builder \<Rightarrow> llvalue \<Rightarrow> nbtype \<Rightarrow> nbtype \<Rightarrow> llvalue \<times> builder" where
  "cast b v fromty toty = (let c = Cast v fromty toty in (c, emit c b))"

text \<open>\<^verbatim>\<open>cgutils.unpack_tuple(builder, tup, count)\<close>: one \<^verbatim>\<open>extract_value\<close> per component.\<close>

definition unpack_tuple :: "builder \<Rightarrow> llvalue \<Rightarrow> nat \<Rightarrow> llvalue list \<times> builder" where
  "unpack_tuple b tup count =
     (let vs = map (ExtractValue tup) [0..<count] in
      (vs, b\<lparr>instructions := instructions b @ vs\<rparr>))"

definition pack_array :: "builder \<Rightarrow> llvalue list \<Rightarrow> llvalue \<times> builder" where
  "pack_array b vs = (let v = PackArray vs in (v, emit v b))"

definition bitcast :: "builder \<Rightarrow> llvalue \<Rightarrow> lltype \<Rightarrow> llvalue \<times> builder" where
  "bitcast b v ty = (let c = Bitcast v ty in (c, emit c b))"

definition addrspacecast :: "builder \<Rightarrow> llvalue \<Rightarrow> int \<Rightarrow> llvalue \<times> builder" where
  "addrspacecast b v addrspace = (let c = AddrSpaceCast v addrspace in (c, emit c b))"

definition get_item_pointer :: "builder \<Rightarrow> llvalue \<Rightarrow> llvalue list \<Rightarrow> llvalue \<times> builder" where
  "get_item_pointer b ary indices = (let p = ItemPointer ary indices in (p, emit p b))"

text \<open>\<^verbatim>\<open>len(ty)\<close> and \<^verbatim>\<open>iter(ty)\<close> of a Numba type: defined for the two tuple types only.\<close>

fun type_len :: "nbtype \<Rightarrow> nat option" where
  "type_len (UniTuple t n) = Some n"
| "type_len (Tuple ts) = Some (length ts)"
| "type_len t = None"

fun type_iter :: "nbtype \<Rightarrow> nbtype list" where
  "type_iter (UniTuple t n) = replicate n t"
| "type_iter (Tuple ts) = ts"
| "type_iter t = []"

subsection \<open>Symbol declaration\<close>

text \<open>\<^verbatim>\<open>_declare_function(context, builder, name, sig, cargs, mangler)\<close>.\<close>

definition declare_function ::
  "env \<Rightarrow> builder \<Rightarrow> string \<Rightarrow> signature \<Rightarrow> string list \<Rightarrow> (string \<Rightarrow> string list \<Rightarrow> string)
     \<Rightarrow> nat \<times> builder" where
  "declare_function e b name sig cargs mangler =
     (let llretty = get_value_type e (return_type sig);
          llargs = map (get_value_type e) (sig_args sig);
          fnty = FunctionTy llretty llargs;
          mangled = mangler name cargs;
          (fn, b1) = get_or_insert_function b fnty mangled
      in (fn, update_global fn (\<lambda>g. g\<lparr>calling_convention := CC_SPIR_FUNC e\<rparr>) b1))"

text \<open>\<^verbatim>\<open>_atomic_mangle(op, ty, addrspace)\<close>.\<close>

definition atomic_mangle :: "env \<Rightarrow> string \<Rightarrow> nbtype \<Rightarrow> int \<Rightarrow> error + string" where
  "atomic_mangle e op ty addrspace =
     (let tyletter = mangle_type e ty in
      case format ''AS{0}'' [str_int addrspace] of
        Inl err \<Rightarrow> Inl err
      | Inr as_str \<Rightarrow>
          (case format ''U{0}{1}'' [str_nat (length as_str), as_str] of
             Inl err \<Rightarrow> Inl err
           | Inr tyaddrstr \<Rightarrow>
               format ''_Z{0}atomic_{1}PV{2}{3}{3}''
                 [str_nat (7 + length op), op, tyaddrstr, tyletter]))"


text \<open>\<^verbatim>\<open>_declare_atomic(context, builder, op, llptrty, ty)\<close>. Reading \<^verbatim>\<open>llptrty.pointee\<close> of a type
  that is not a pointer type raises.\<close>

definition declare_atomic ::
  "env \<Rightarrow> builder \<Rightarrow> string \<Rightarrow> lltype \<Rightarrow> nbtype \<Rightarrow> (error + nat) \<times> builder" where
  "declare_atomic e b op llptrty ty =
     (case llptrty of
        PointerTy llty addrspace \<Rightarrow>
          (let llretty = llty;
               llargs = [llptrty, llty];
               fnty = FunctionTy llretty llargs
           in case atomic_mangle e op ty addrspace of
                Inl err \<Rightarrow> (Inl err, b)
              | Inr symb \<Rightarrow>
                  (let (fn, b1) = get_or_insert_function b fnty symb in
                   (Inr fn, update_global fn (\<lambda>g. g\<lparr>calling_convention := CC_SPIR_FUNC e\<rparr>) b1)))
      | _ \<Rightarrow> (Inl (AttributeError ''pointee''), b))"

subsection \<open>Lowering rules\<close>

text \<open>\<^verbatim>\<open>get_global_id_impl(context, builder, sig, args)\<close>, registered for one \<^verbatim>\<open>uint32\<close> argument.\<close>

definition get_global_id_impl ::
  "env \<Rightarrow> builder \<Rightarrow> signature \<Rightarrow> llvalue list \<Rightarrow> (error + llvalue) \<times> builder" where
  "get_global_id_impl e b sig vs =
     (case vs of
        [dim] \<Rightarrow>
          (let (get_global_id, b1) =
                 declare_function e b ''get_global_id'' sig [''unsigned int''] (mangle_c e);
               (res, b2) = call b1 get_global_id [dim];
               (r, b3) = cast b2 res (uintp e) (intp e)
           in (Inr r, b3))
      | _ \<Rightarrow> (Inl (ValueError_unpack (length vs)), b))"

text \<open>The list comprehension of \<^verbatim>\<open>hsail_atomic_add_tuple\<close>: each index is cast from its
  component type to \<^verbatim>\<open>intp\<close>.\<close>

fun cast_indices :: "env \<Rightarrow> builder \<Rightarrow> (nbtype \<times> llvalue) list \<Rightarrow> llvalue list \<times> builder" where
  "cast_indices e b [] = ([], b)"
| "cast_indices e b (ti # tis) =
     (let (c, b1) = cast b (snd ti) (fst ti) (intp e);
          (cs, b2) = cast_indices e b1 tis
      in (c # cs, b2))"

text \<open>Lines 153 to 159: the index values and \<^verbatim>\<open>len(indty)\<close> as line 164 reads it.\<close>

definition atomic_add_indices ::
  "env \<Rightarrow> builder \<Rightarrow> nbtype \<Rightarrow> llvalue \<Rightarrow> (error + llvalue list \<times> nat) \<times> builder" where
  "atomic_add_indices e b indty inds =
     (if indty = intp e then (Inr ([inds], length [indty]), b)
      else
        (case type_len indty of
           None \<Rightarrow> (Inl (TypeError_no_len indty), b)
         | Some count \<Rightarrow>
             (let (indices, b1) = unpack_tuple b inds count;
                  (indices', b2) = cast_indices e b1 (zip (type_iter indty) indices)
              in (Inr (indices', count), b2))))"

text \<open>\<^verbatim>\<open>hsail_atomic_add_tuple(context, builder, sig, args)\<close>.\<close>

definition hsail_atomic_add_tuple ::
  "env \<Rightarrow> builder \<Rightarrow> signature \<Rightarrow> llvalue list \<Rightarrow> (error + llvalue) \<times> builder" where
  "hsail_atomic_add_tuple e b sig vs =
     (case sig_args sig of
        [aryty, indty, valty] \<Rightarrow>
          (case vs of
             [ary, inds, val] \<Rightarrow>
               (case aryty of
                  Array dtype ndim layout \<Rightarrow>
                    (case atomic_add_indices e b indty inds of
                       (Inl err, b1) \<Rightarrow> (Inl err, b1)
                     | (Inr (indices, len_indty), b1) \<Rightarrow>
                         if dtype \<noteq> valty then (Inl (TypeError_expecting dtype valty), b1)
                         else if ndim \<noteq> len_indty then (Inl (TypeError_indexing ndim len_indty), b1)
                         else
                           (let (ptr, b2) = get_item_pointer b1 ary indices in
                            case declare_atomic e b2 ''add'' (data_pointer_type e aryty) valty of
                              (Inl err, b3) \<Rightarrow> (Inl err, b3)
                            | (Inr atomic_add, b3) \<Rightarrow>
                                (let (r, b4) = call b3 atomic_add [ptr, val] in (Inr r, b4))))
                | _ \<Rightarrow> (Inl (AttributeError ''dtype''), b))
           | _ \<Rightarrow> (Inl (ValueError_unpack (length vs)), b))
      | _ \<Rightarrow> (Inl (ValueError_unpack (length (sig_args sig))), b))"

text \<open>The three \<^verbatim>\<open>@implement\<close> templates of \<^verbatim>\<open>stubs.atomic.add\<close>: an array, then \<^verbatim>\<open>intp\<close> or a
  \<^verbatim>\<open>UniTuple\<close> or a \<^verbatim>\<open>Tuple\<close>, then any type. The host calls the rule with one value per argument
  type.\<close>

fun is_array :: "nbtype \<Rightarrow> bool" where
  "is_array (Array dtype ndim layout) = True"
| "is_array t = False"

fun is_tuple :: "nbtype \<Rightarrow> bool" where
  "is_tuple (UniTuple t n) = True"
| "is_tuple (Tuple ts) = True"
| "is_tuple t = False"

fun atomic_add_registered :: "env \<Rightarrow> nbtype list \<Rightarrow> bool" where
  "atomic_add_registered e [aryty, indty, valty] =
     (is_array aryty \<and> (if indty = intp e then True else is_tuple indty))"
| "atomic_add_registered e ts = False"

text \<open>\<^verbatim>\<open>reduce(operator.mul, shape)\<close>: no initial value, so the empty sequence raises.\<close>

fun reduce_mul :: "int list \<Rightarrow> error + int" where
  "reduce_mul [] = Inl TypeError_reduce_empty"
| "reduce_mul (x # xs) = Inr (foldl (*) x xs)"

text \<open>The strides loop of \<^verbatim>\<open>_make_array\<close>: starting from \<^verbatim>\<open>[itemsize]\<close>, each extent appends
  itself times the last entry (\<^verbatim>\<open>rstrides[-1]\<close>; the list is never empty).\<close>

definition rstrides_loop :: "int \<Rightarrow> int list \<Rightarrow> int list" where
  "rstrides_loop itemsize ys = foldl (\<lambda>rs lastsize. rs @ [lastsize * last rs]) [itemsize] ys"

text \<open>\<^verbatim>\<open>_make_array(context, builder, dataptr, dtype, shape)\<close>. \<^verbatim>\<open>_get_target_data\<close> looks the
  context's address size up in \<^verbatim>\<open>hlc.DATALAYOUT\<close>; the loop runs over \<^verbatim>\<open>reversed(shape[1:])\<close>.\<close>

definition make_array ::
  "env \<Rightarrow> builder \<Rightarrow> llvalue \<Rightarrow> nbtype \<Rightarrow> int list \<Rightarrow> (error + array_object) \<times> builder" where
  "make_array e b dataptr dtype shape =
     (let ndim = length shape;
          aryty = Array dtype ndim ''C'';
          (data, b1) = bitcast b dataptr (data_pointer_type e aryty)
      in case DATALAYOUT e (address_size e) of
           None \<Rightarrow> (Inl (KeyError_DATALAYOUT (address_size e)), b1)
         | Some targetdata \<Rightarrow>
             (let lldtype = get_data_type e dtype;
                  itemsize = get_abi_size e lldtype targetdata;
                  rstrides = rstrides_loop itemsize (rev (drop 1 shape));
                  strides = rev rstrides;
                  kshape = map (Constant (intp e)) shape;
                  kstrides = map (Constant (intp e)) strides;
                  (pshape, b2) = pack_array b1 kshape;
                  (pstrides, b3) = pack_array b2 kstrides
              in (Inr \<lparr>ary_type = aryty, ary_data = data, ary_shape = pshape,
                        ary_strides = pstrides\<rparr>, b3)))"

text \<open>\<^verbatim>\<open>_generic_array(context, builder, shape, dtype, symbol_name, addrspace)\<close>.\<close>

definition generic_array ::
  "env \<Rightarrow> builder \<Rightarrow> int list \<Rightarrow> nbtype \<Rightarrow> string \<Rightarrow> int \<Rightarrow> (error + array_object) \<times> builder" where
  "generic_array e b shape dtype symbol_name addrspace =
     (case reduce_mul shape of
        Inl err \<Rightarrow> (Inl err, b)
      | Inr elemcount \<Rightarrow>
          (let lldtype = get_data_type e dtype;
               laryty = ArrayTy lldtype elemcount
           in if addrspace = SPIR_LOCAL_ADDRSPACE e then
                (let (gvmem, b1) = add_global_variable e b laryty symbol_name addrspace in
                 if elemcount \<le> 0 then (Inl ValueError_array_length, b1)
                 else
                   (let b2 = update_global gvmem (\<lambda>g. g\<lparr>linkage := LINKAGE_INTERNAL e\<rparr>) b1;
                        b3 = update_global gvmem
                               (\<lambda>g. g\<lparr>initializer := Some (NullConstant laryty)\<rparr>) b2
                    in if dtype \<notin> number_domain e then (Inl (TypeError_unsupported_type dtype), b3)
                       else
                         (let (dataptr, b4) =
                                addrspacecast b3 (GlobalRef (global_name b3 gvmem))
                                  (SPIR_GENERIC_ADDRSPACE e)
                          in make_array e b4 dataptr dtype shape)))
              else (Inl (NotImplementedError_addrspace addrspace), b)))"

text \<open>\<^verbatim>\<open>hsail_smem_alloc_array(context, builder, sig, args)\<close>: the arguments of the intrinsic are
  the shape, a tuple of Python integers, and the dtype.\<close>

definition hsail_smem_alloc_array ::
  "env \<Rightarrow> builder \<Rightarrow> signature \<Rightarrow> int list \<Rightarrow> nbtype \<Rightarrow> (error + array_object) \<times> builder" where
  "hsail_smem_alloc_array e b sig shape dtype =
     generic_array e b shape dtype ''_hsapy_smem'' (SPIR_LOCAL_ADDRSPACE e)"

subsection \<open>Notions of the specification\<close>

text \<open>\<^verbatim>\<open>types.uint32\<close>, the argument type \<^verbatim>\<open>get_global_id_impl\<close> is registered for.\<close>

definition uint32 :: nbtype where
  "uint32 = Scalar ''uint32''"

text \<open>The number of index components of an index type: a single integer index counts as
  one, a tuple as its length.\<close>

definition index_components :: "env \<Rightarrow> nbtype \<Rightarrow> nat" where
  "index_components e indty =
     (if indty = intp e then 1 else case type_len indty of Some n \<Rightarrow> n | None \<Rightarrow> 0)"

subsection \<open>A host environment to evaluate on\<close>

text \<open>A 64-bit host for the concrete evaluations below. The mangler covers the one C type
  and the Numba types the examples use.\<close>

definition example_env :: env where
  "example_env =
     \<lparr>mangle_c = (\<lambda>name cargs. ''_Z'' @ str_nat (length name) @ name
                     @ concat (map (\<lambda>c. if c = ''unsigned int'' then ''j'' else ''?'') cargs)),
      mangle_type = (\<lambda>t. if t = Scalar ''float32'' then ''f''
                          else if t = Scalar ''int32'' then ''i'' else ''?''),
      CC_SPIR_FUNC = ''spir_func'',
      SPIR_LOCAL_ADDRSPACE = 3,
      SPIR_GENERIC_ADDRSPACE = 4,
      LINKAGE_INTERNAL = ''internal'',
      intp = Scalar ''int64'',
      uintp = Scalar ''uint64'',
      number_domain = {Scalar ''int32'', Scalar ''int64'', Scalar ''uint32'', Scalar ''uint64'',
                       Scalar ''float32'', Scalar ''float64''},
      get_value_type = (\<lambda>t. case t of Scalar n \<Rightarrow> NamedTy n | _ \<Rightarrow> NamedTy ''struct''),
      get_data_type = (\<lambda>t. case t of Scalar n \<Rightarrow> NamedTy n | _ \<Rightarrow> NamedTy ''struct''),
      data_pointer_type = (\<lambda>t. case t of Array (Scalar n) ndim layout \<Rightarrow> PointerTy (NamedTy n) 1
                                 | _ \<Rightarrow> PointerTy (NamedTy ''struct'') 1),
      address_size = 64,
      DATALAYOUT = (\<lambda>n. if n = 64 then Some ''e-p:64:64'' else None),
      get_abi_size = (\<lambda>ty layout. if ty = NamedTy ''float32'' \<or> ty = NamedTy ''int32'' then 4 else 8),
      get_unique_name = (\<lambda>used name. if name \<in> set used
                                        then name @ ''.'' @ str_nat (length used) else name)\<rparr>"

definition empty_builder :: builder where
  "empty_builder = \<lparr>module_globals = [], instructions = []\<rparr>"

text \<open>Sample inputs: the signatures the host passes for the three intrinsics, and the values
  of an atomic add.\<close>

definition sig_global_id :: signature where
  "sig_global_id = \<lparr>return_type = Scalar ''int64'', sig_args = [uint32]\<rparr>"

definition sig_atomic_add :: "nat \<Rightarrow> nbtype \<Rightarrow> signature" where
  "sig_atomic_add count valty =
     \<lparr>return_type = valty,
      sig_args = [Array (Scalar ''float32'') 2 ''C'', UniTuple (Scalar ''int32'') count, valty]\<rparr>"

definition atomic_add_values :: "llvalue list" where
  "atomic_add_values = [Arg ''ary'', Arg ''inds'', Arg ''val'']"

definition sig_smem :: "nat \<Rightarrow> nbtype \<Rightarrow> signature" where
  "sig_smem ndim dtype =
     \<lparr>return_type = Array dtype ndim ''C'',
      sig_args = [UniTuple (Scalar ''int64'') ndim, Scalar ''any'']\<rparr>"

subsection \<open>Properties\<close>

lemma format_AS: "format ''AS{0}'' [a] = Inr (''AS'' @ a)"
  by (simp add: format_def digit_val_def)

lemma format_U: "format ''U{0}{1}'' [a, b] = Inr (''U'' @ a @ b)"
  by (simp add: format_def digit_val_def)

lemma format_Z:
  "format ''_Z{0}atomic_{1}PV{2}{3}{3}'' [a, b, c, d] =
     Inr (''_Z'' @ a @ ''atomic_'' @ b @ ''PV'' @ c @ d @ d)"
  by (simp add: format_def digit_val_def)

text \<open>C2. The atomic mangling is \<^verbatim>\<open>_Z\<close>, the decimal 7 + len(op), \<^verbatim>\<open>atomic_\<close> + op, \<^verbatim>\<open>PV\<close>,
  \<^verbatim>\<open>U\<close> + len(AS + str(a)) + AS + str(a), and the type letter twice; the decimal prefix is the
  length of the identifier \<^verbatim>\<open>atomic_\<close> + op.\<close>

theorem atomic_mangle_shape:
  "atomic_mangle e op ty a =
     Inr (''_Z'' @ str_nat (7 + length op) @ (''atomic_'' @ op) @ ''PV''
          @ (''U'' @ str_nat (length (''AS'' @ str_int a)) @ ''AS'' @ str_int a)
          @ mangle_type e ty @ mangle_type e ty)
   \<and> 7 + length op = length (''atomic_'' @ op)"
  by (simp add: atomic_mangle_def Let_def format_AS format_U format_Z)

text \<open>Evaluated on the sample host.\<close>

theorem atomic_mangle_shape_witness:
  "atomic_mangle example_env ''add'' (Scalar ''float32'') 1 = Inr ''_Z10atomic_addPVU3AS1ff''"
  using atomic_mangle_shape[of example_env "''add''" "Scalar ''float32''" 1]
  by (simp add: example_env_def str_int_def str_nat.simps digit_char_def)

lemma index_of_Some: "index_of name xs = Some i \<Longrightarrow> i < length xs \<and> fst (xs ! i) = name"
  by (induction xs arbitrary: i) (auto split: if_splits)

lemma index_of_None: "index_of name xs = None \<Longrightarrow> map_of xs name = None"
  by (induction xs) (auto split: if_splits)

lemma map_of_update_index:
  "index_of name xs = Some i \<Longrightarrow> map_of (xs[i := (name, g)]) name = Some g"
  by (induction xs arbitrary: i) (auto split: if_splits)

lemma declare_function_instructions:
  "declare_function e b name sig cargs mangler = (fn, b1) \<Longrightarrow> instructions b1 = instructions b"
  by (auto simp: declare_function_def get_or_insert_function_def update_global_def Let_def
      split: option.splits prod.splits)

lemma declare_function_global:
  assumes "declare_function e b name sig cargs mangler = (fn, b1)"
  shows "global_name b1 fn = mangler name cargs"
    and "\<exists>g. map_of (module_globals b1) (mangler name cargs) = Some g
           \<and> calling_convention g = CC_SPIR_FUNC e
           \<and> (map_of (module_globals b) (mangler name cargs) = None \<longrightarrow>
                g = (new_global FunctionKind
                      (FunctionTy (get_value_type e (return_type sig))
                         (map (get_value_type e) (sig_args sig))) 0)
                    \<lparr>calling_convention := CC_SPIR_FUNC e\<rparr>)"
proof -
  let ?m = "mangler name cargs"
  show "global_name b1 fn = ?m"
  proof (cases "index_of ?m (module_globals b)")
    case None
    with assms show ?thesis
      by (auto simp: declare_function_def get_or_insert_function_def update_global_def Let_def global_name_def)
  next
    case (Some i)
    with assms index_of_Some[OF Some] show ?thesis
      by (auto simp: declare_function_def get_or_insert_function_def update_global_def Let_def global_name_def)
  qed
  show "\<exists>g. map_of (module_globals b1) ?m = Some g
           \<and> calling_convention g = CC_SPIR_FUNC e
           \<and> (map_of (module_globals b) ?m = None \<longrightarrow>
                g = (new_global FunctionKind
                      (FunctionTy (get_value_type e (return_type sig))
                         (map (get_value_type e) (sig_args sig))) 0)
                    \<lparr>calling_convention := CC_SPIR_FUNC e\<rparr>)"
  proof (cases "index_of ?m (module_globals b)")
    case None
    with assms index_of_None[OF None] show ?thesis
      by (auto simp: declare_function_def get_or_insert_function_def update_global_def Let_def
          map_add_def)
  next
    case (Some i)
    from index_of_Some[OF Some] have i: "i < length (module_globals b)" "fst (module_globals b ! i) = ?m"
      by auto
    have "map_of (module_globals b) ?m \<noteq> None"
      using i by (metis fst_conv map_of_eq_None_iff nth_mem image_eqI)
    with assms Some i map_of_update_index[OF Some] show ?thesis
      by (auto simp: declare_function_def get_or_insert_function_def update_global_def Let_def)
  qed
qed

text \<open>C1. Lowering the global-id intrinsic for a \<^verbatim>\<open>uint32\<close> argument emits exactly one call, to
  the global named by the Itanium C mangling of \<^verbatim>\<open>get_global_id\<close> with C argument type
  \<^verbatim>\<open>unsigned int\<close>; that global has calling convention SPIR_FUNC (and is a function declaration
  of the signature's LLVM type when the module did not have the name yet); the result is the
  call's result cast from \<^verbatim>\<open>uintp\<close> to \<^verbatim>\<open>intp\<close>.\<close>

theorem get_global_id_lowering:
  assumes "sig_args sig = [uint32]"
    and "get_global_id_impl e b sig [dim] = (r, b')"
  shows "r = Inr (Cast (Call (mangle_c e ''get_global_id'' [''unsigned int'']) [dim])
                    (uintp e) (intp e))
       \<and> instructions b' = instructions b
           @ [Call (mangle_c e ''get_global_id'' [''unsigned int'']) [dim],
              Cast (Call (mangle_c e ''get_global_id'' [''unsigned int'']) [dim]) (uintp e) (intp e)]
       \<and> length (filter is_call (instructions b')) = Suc (length (filter is_call (instructions b)))
       \<and> (\<exists>g. map_of (module_globals b') (mangle_c e ''get_global_id'' [''unsigned int'']) = Some g
              \<and> calling_convention g = CC_SPIR_FUNC e
              \<and> (map_of (module_globals b) (mangle_c e ''get_global_id'' [''unsigned int'']) = None \<longrightarrow>
                   g_kind g = FunctionKind
                   \<and> g_type g = FunctionTy (get_value_type e (return_type sig)) [get_value_type e uint32]))"
proof -
  obtain fn b1 where d: "declare_function e b ''get_global_id'' sig [''unsigned int''] (mangle_c e) = (fn, b1)"
    by (cases "declare_function e b ''get_global_id'' sig [''unsigned int''] (mangle_c e)")
  note i = declare_function_instructions[OF d]
  note g = declare_function_global[OF d]
  from assms(2) d g(1) i
  have r: "r = Inr (Cast (Call (mangle_c e ''get_global_id'' [''unsigned int'']) [dim]) (uintp e) (intp e))"
    and b': "instructions b' = instructions b
           @ [Call (mangle_c e ''get_global_id'' [''unsigned int'']) [dim],
              Cast (Call (mangle_c e ''get_global_id'' [''unsigned int'']) [dim]) (uintp e) (intp e)]"
    and m: "module_globals b' = module_globals b1"
    by (auto simp: get_global_id_impl_def call_def cast_def emit_def Let_def)
  from b' have c: "length (filter is_call (instructions b')) = Suc (length (filter is_call (instructions b)))"
    by simp
  from g(2) m assms(1) show ?thesis
    using r b' c by (auto simp: new_global_def)
qed

text \<open>Evaluated on the sample host.\<close>

theorem get_global_id_lowering_witness:
  "sig_args sig_global_id = [uint32]
   \<and> fst (get_global_id_impl example_env empty_builder sig_global_id [Arg ''dim''])
       = Inr (Cast (Call ''_Z13get_global_idj'' [Arg ''dim'']) (Scalar ''uint64'') (Scalar ''int64''))
   \<and> length (filter is_call (instructions (snd
        (get_global_id_impl example_env empty_builder sig_global_id [Arg ''dim''])))) = 1"
proof -
  obtain r b' where run:
    "get_global_id_impl example_env empty_builder sig_global_id [Arg ''dim''] = (r, b')"
    by (cases "get_global_id_impl example_env empty_builder sig_global_id [Arg ''dim'']")
  have s: "sig_args sig_global_id = [uint32]"
    by (simp add: sig_global_id_def)
  from get_global_id_lowering[OF s run]
  have "r = Inr (Cast (Call (mangle_c example_env ''get_global_id'' [''unsigned int''])
                  [Arg ''dim'']) (uintp example_env) (intp example_env))"
    and "length (filter is_call (instructions b'))
         = Suc (length (filter is_call (instructions empty_builder)))"
    by blast+
  moreover have "mangle_c example_env ''get_global_id'' [''unsigned int''] = ''_Z13get_global_idj''"
    by code_simp
  moreover have "uintp example_env = Scalar ''uint64''" "intp example_env = Scalar ''int64''"
    by (simp_all add: example_env_def)
  ultimately show ?thesis
    using s run by (simp add: empty_builder_def)
qed

lemma filter_is_call_extract: "filter is_call (map (ExtractValue tup) ns) = []"
  by (induction ns) auto

lemma filter_is_call_cast:
  "filter is_call (map (\<lambda>ti. Cast (snd ti) (fst ti) t) tis) = []"
  by (induction tis) auto

lemma cast_indices_effect:
  "cast_indices e b tis = (cs, b') \<Longrightarrow>
     module_globals b' = module_globals b
     \<and> instructions b' = instructions b @ map (\<lambda>ti. Cast (snd ti) (fst ti) (intp e)) tis"
  by (induction tis arbitrary: b cs b')
     (auto simp: cast_def emit_def Let_def split: prod.splits)

lemma is_tuple_len: "is_tuple t \<Longrightarrow> \<exists>n. type_len t = Some n"
  by (cases t) auto

lemma atomic_add_indices_effect:
  assumes "atomic_add_registered e [aryty, indty, valty]"
  shows "\<exists>indices b1. atomic_add_indices e b indty inds = (Inr (indices, index_components e indty), b1)
           \<and> module_globals b1 = module_globals b
           \<and> filter is_call (instructions b1) = filter is_call (instructions b)"
proof (cases "indty = intp e")
  case True
  then show ?thesis
    by (simp add: atomic_add_indices_def index_components_def)
next
  case False
  with assms have "is_tuple indty" by simp
  then obtain n where n: "type_len indty = Some n"
    using is_tuple_len by blast
  obtain cs b2 where c: "cast_indices e (snd (unpack_tuple b inds n))
      (zip (type_iter indty) (fst (unpack_tuple b inds n))) = (cs, b2)"
    by (cases "cast_indices e (snd (unpack_tuple b inds n))
      (zip (type_iter indty) (fst (unpack_tuple b inds n)))")
  from cast_indices_effect[OF c]
  have "module_globals b2 = module_globals b"
    and "filter is_call (instructions b2) = filter is_call (instructions b)"
    by (simp_all add: unpack_tuple_def Let_def filter_is_call_extract filter_is_call_cast)
  with False n c show ?thesis
    by (simp add: atomic_add_indices_def index_components_def Let_def case_prod_beta)
qed

text \<open>C3. When the array's element dtype differs from the type of the value argument, lowering
  the atomic add raises the mismatched-dtype error; no call is emitted and the module's globals
  are as before.\<close>

theorem atomic_add_dtype_mismatch:
  assumes "sig_args sig = [Array dtype ndim layout, indty, valty]"
    and "atomic_add_registered e (sig_args sig)"
    and "vs = [ary, inds, val]"
    and "dtype \<noteq> valty"
  shows "\<exists>b'. hsail_atomic_add_tuple e b sig vs = (Inl (TypeError_expecting dtype valty), b')
           \<and> filter is_call (instructions b') = filter is_call (instructions b)
           \<and> module_globals b' = module_globals b"
proof -
  from assms(1,2) have "atomic_add_registered e [Array dtype ndim layout, indty, valty]"
    by simp
  from atomic_add_indices_effect[OF this, of b inds]
  obtain indices b1 where
    "atomic_add_indices e b indty inds = (Inr (indices, index_components e indty), b1)"
    "module_globals b1 = module_globals b"
    "filter is_call (instructions b1) = filter is_call (instructions b)"
    by blast
  with assms show ?thesis
    by (simp add: hsail_atomic_add_tuple_def)
qed

text \<open>Evaluated on the sample host.\<close>

theorem atomic_add_dtype_mismatch_witness:
  "\<exists>b'. hsail_atomic_add_tuple example_env empty_builder (sig_atomic_add 2 (Scalar ''int32''))
            atomic_add_values
          = (Inl (TypeError_expecting (Scalar ''float32'') (Scalar ''int32'')), b')
        \<and> filter is_call (instructions b') = []
        \<and> module_globals b' = []"
  using atomic_add_dtype_mismatch[of "sig_atomic_add 2 (Scalar ''int32'')" "Scalar ''float32''" 2
      "''C''" "UniTuple (Scalar ''int32'') 2" "Scalar ''int32''" example_env atomic_add_values
      "Arg ''ary''" "Arg ''inds''" "Arg ''val''" empty_builder]
  by (simp add: sig_atomic_add_def atomic_add_values_def example_env_def empty_builder_def)

text \<open>C4, as amended. When the number of index components differs from the array's number of
  dimensions, lowering the atomic add raises an error and emits no call: the
  wrong-index-dimensionality error when the dtype equals the value type, and the mismatched-dtype
  error, whose check comes first, otherwise.\<close>

theorem atomic_add_index_mismatch:
  assumes "sig_args sig = [Array dtype ndim layout, indty, valty]"
    and "atomic_add_registered e (sig_args sig)"
    and "vs = [ary, inds, val]"
    and "ndim \<noteq> index_components e indty"
  shows "\<exists>b'. hsail_atomic_add_tuple e b sig vs =
              (Inl (if dtype = valty then TypeError_indexing ndim (index_components e indty)
                    else TypeError_expecting dtype valty), b')
           \<and> filter is_call (instructions b') = filter is_call (instructions b)
           \<and> module_globals b' = module_globals b"
proof -
  from assms(1,2) have "atomic_add_registered e [Array dtype ndim layout, indty, valty]"
    by simp
  from atomic_add_indices_effect[OF this, of b inds]
  obtain indices b1 where
    "atomic_add_indices e b indty inds = (Inr (indices, index_components e indty), b1)"
    "module_globals b1 = module_globals b"
    "filter is_call (instructions b1) = filter is_call (instructions b)"
    by blast
  with assms show ?thesis
    by (simp add: hsail_atomic_add_tuple_def)
qed

text \<open>Evaluated on the sample host.\<close>

theorem atomic_add_index_mismatch_witness:
  "\<exists>b'. hsail_atomic_add_tuple example_env empty_builder (sig_atomic_add 3 (Scalar ''float32''))
            atomic_add_values
          = (Inl (TypeError_indexing 2 3), b')
        \<and> filter is_call (instructions b') = []
        \<and> module_globals b' = []"
  using atomic_add_index_mismatch[of "sig_atomic_add 3 (Scalar ''float32'')" "Scalar ''float32''" 2
      "''C''" "UniTuple (Scalar ''int32'') 3" "Scalar ''float32''" example_env atomic_add_values
      "Arg ''ary''" "Arg ''inds''" "Arg ''val''" empty_builder]
  by (simp add: sig_atomic_add_def atomic_add_values_def example_env_def empty_builder_def
      index_components_def)

text \<open>The statement without the amendment fails on the sample host.\<close>

theorem atomic_add_index_mismatch_counterexample:
  "atomic_add_registered example_env (sig_args (sig_atomic_add 3 (Scalar ''int32'')))
   \<and> index_components example_env (UniTuple (Scalar ''int32'') 3) = 3
   \<and> fst (hsail_atomic_add_tuple example_env empty_builder (sig_atomic_add 3 (Scalar ''int32''))
            atomic_add_values)
      = Inl (TypeError_expecting (Scalar ''float32'') (Scalar ''int32''))
   \<and> fst (hsail_atomic_add_tuple example_env empty_builder (sig_atomic_add 3 (Scalar ''int32''))
            atomic_add_values)
      \<noteq> Inl (TypeError_indexing 2 3)"
  by code_simp

lemma foldl_mult_prod: "foldl (*) x xs = x * prod_list xs" for x :: int
  by (induction xs arbitrary: x) (simp_all add: mult.assoc)

lemma reduce_mul_prod: "shape \<noteq> [] \<Longrightarrow> reduce_mul shape = Inr (prod_list shape)"
  by (cases shape) (simp_all add: foldl_mult_prod)

text \<open>C5. When the product of the shape's element counts is at most zero, lowering the
  shared-memory allocation raises the non-positive-size error.\<close>

theorem smem_alloc_nonpositive:
  assumes "prod_list shape \<le> 0"
  shows "\<exists>b'. hsail_smem_alloc_array e b sig shape dtype = (Inl ValueError_array_length, b')"
proof -
  from assms have "shape \<noteq> []" by auto
  from reduce_mul_prod[OF this] assms show ?thesis
    by (simp add: hsail_smem_alloc_array_def generic_array_def add_global_variable_def Let_def)
qed

text \<open>Evaluated on the sample host.\<close>

theorem smem_alloc_nonpositive_witness:
  "prod_list [4, 0 :: int] \<le> 0
   \<and> (\<exists>b'. hsail_smem_alloc_array example_env empty_builder (sig_smem 2 (Scalar ''float32''))
               [4, 0] (Scalar ''float32'') = (Inl ValueError_array_length, b'))"
  using smem_alloc_nonpositive[of "[4, 0]" example_env empty_builder
      "sig_smem 2 (Scalar ''float32'')" "Scalar ''float32''"]
  by simp

text \<open>C6, as amended. For a non-empty shape and a dtype outside the number domain, lowering
  the shared-memory allocation raises an error: the unsupported-element-type error when the
  element count is positive, and the non-positive-size error, whose check comes first,
  otherwise.\<close>

theorem smem_alloc_unsupported_type:
  assumes "dtype \<notin> number_domain e"
    and "shape \<noteq> []"
  shows "\<exists>b'. hsail_smem_alloc_array e b sig shape dtype =
            (Inl (if prod_list shape \<le> 0 then ValueError_array_length
                  else TypeError_unsupported_type dtype), b')"
  using assms reduce_mul_prod[OF assms(2)]
  by (simp add: hsail_smem_alloc_array_def generic_array_def add_global_variable_def Let_def)

text \<open>Evaluated on the sample host.\<close>

theorem smem_alloc_unsupported_type_witness:
  "Scalar ''bool'' \<notin> number_domain example_env
   \<and> (\<exists>b'. hsail_smem_alloc_array example_env empty_builder (sig_smem 2 (Scalar ''bool''))
               [2, 3] (Scalar ''bool'') = (Inl (TypeError_unsupported_type (Scalar ''bool'')), b'))"
  using smem_alloc_unsupported_type[of "Scalar ''bool''" example_env "[2, 3]" empty_builder
      "sig_smem 2 (Scalar ''bool'')"]
  by (simp add: example_env_def)

text \<open>The statement without the amendment fails on the sample host.\<close>

theorem smem_alloc_unsupported_type_counterexample:
  "Scalar ''bool'' \<notin> number_domain example_env
   \<and> fst (hsail_smem_alloc_array example_env empty_builder (sig_smem 1 (Scalar ''bool''))
            [0] (Scalar ''bool'')) = Inl ValueError_array_length
   \<and> fst (hsail_smem_alloc_array example_env empty_builder (sig_smem 1 (Scalar ''bool''))
            [0] (Scalar ''bool'')) \<noteq> Inl (TypeError_unsupported_type (Scalar ''bool''))"
  by (simp add: hsail_smem_alloc_array_def generic_array_def add_global_variable_def Let_def
      example_env_def)

text \<open>C7, as amended. For a non-empty shape and an address space other than the SPIR local
  one, the generic allocator raises the unsupported-address-space error and leaves the builder
  as it was; the shared-memory intrinsic never raises that error.\<close>

theorem generic_array_addrspace:
  "(addrspace \<noteq> SPIR_LOCAL_ADDRSPACE e \<and> shape \<noteq> [] \<longrightarrow>
      generic_array e b shape dtype symbol_name addrspace =
        (Inl (NotImplementedError_addrspace addrspace), b))
   \<and> fst (hsail_smem_alloc_array e b sig shape dtype) \<noteq> Inl (NotImplementedError_addrspace a)"
proof
  show "addrspace \<noteq> SPIR_LOCAL_ADDRSPACE e \<and> shape \<noteq> [] \<longrightarrow>
      generic_array e b shape dtype symbol_name addrspace =
        (Inl (NotImplementedError_addrspace addrspace), b)"
    using reduce_mul_prod[of shape] by (auto simp: generic_array_def Let_def)
  show "fst (hsail_smem_alloc_array e b sig shape dtype) \<noteq> Inl (NotImplementedError_addrspace a)"
    by (cases shape)
       (auto simp: hsail_smem_alloc_array_def generic_array_def add_global_variable_def Let_def
          make_array_def bitcast_def pack_array_def addrspacecast_def case_prod_beta
          split: option.splits)
qed

text \<open>Evaluated on the sample host.\<close>

theorem generic_array_addrspace_witness:
  "SPIR_GENERIC_ADDRSPACE example_env \<noteq> SPIR_LOCAL_ADDRSPACE example_env
   \<and> generic_array example_env empty_builder [2] (Scalar ''float32'') ''_hsapy_smem''
        (SPIR_GENERIC_ADDRSPACE example_env)
      = (Inl (NotImplementedError_addrspace 4), empty_builder)
   \<and> fst (hsail_smem_alloc_array example_env empty_builder (sig_smem 1 (Scalar ''float32''))
            [2] (Scalar ''float32'')) \<noteq> Inl (NotImplementedError_addrspace 3)"
  using generic_array_addrspace[of "SPIR_GENERIC_ADDRSPACE example_env" example_env "[2]"
      empty_builder "Scalar ''float32''" "''_hsapy_smem''" "sig_smem 1 (Scalar ''float32'')" 3]
  by (simp add: example_env_def)

text \<open>The statement without the amendment fails on the sample host.\<close>

theorem generic_array_addrspace_counterexample:
  "SPIR_GENERIC_ADDRSPACE example_env \<noteq> SPIR_LOCAL_ADDRSPACE example_env
   \<and> fst (generic_array example_env empty_builder [] (Scalar ''float32'') ''_hsapy_smem''
            (SPIR_GENERIC_ADDRSPACE example_env)) = Inl TypeError_reduce_empty
   \<and> fst (generic_array example_env empty_builder [] (Scalar ''float32'') ''_hsapy_smem''
            (SPIR_GENERIC_ADDRSPACE example_env))
      \<noteq> Inl (NotImplementedError_addrspace (SPIR_GENERIC_ADDRSPACE example_env))"
  by (simp add: generic_array_def example_env_def)

text \<open>C9. When the shared-memory allocation raises the non-positive-size or the
  unsupported-element-type error, the module already holds the new global variable that backs
  the allocation, so it differs from the module before the call.\<close>

theorem smem_alloc_error_mutates_module:
  assumes "hsail_smem_alloc_array e b sig shape dtype = (Inl err, b')"
    and "err = ValueError_array_length \<or> err = TypeError_unsupported_type dtype"
  shows "\<exists>gv. module_globals b' =
              module_globals b
                @ [(get_unique_name e (map fst (module_globals b)) ''_hsapy_smem'', gv)]
           \<and> g_kind gv = VariableKind
           \<and> g_type gv = ArrayTy (get_data_type e dtype) (prod_list shape)
           \<and> g_addrspace gv = SPIR_LOCAL_ADDRSPACE e
           \<and> module_globals b' \<noteq> module_globals b"
proof (cases shape)
  case Nil
  with assms show ?thesis
    by (auto simp: hsail_smem_alloc_array_def generic_array_def)
next
  case (Cons x xs)
  then have "reduce_mul shape = Inr (prod_list shape)"
    using reduce_mul_prod by blast
  with assms show ?thesis
    by (auto simp: hsail_smem_alloc_array_def generic_array_def add_global_variable_def Let_def
          make_array_def bitcast_def pack_array_def addrspacecast_def case_prod_beta
          update_global_def new_global_def emit_def
          split: option.splits if_splits)
qed

text \<open>Evaluated on the sample host.\<close>

theorem smem_alloc_error_mutates_module_witness:
  "fst (hsail_smem_alloc_array example_env empty_builder (sig_smem 1 (Scalar ''float32''))
          [0] (Scalar ''float32'')) = Inl ValueError_array_length
   \<and> module_globals (snd (hsail_smem_alloc_array example_env empty_builder
          (sig_smem 1 (Scalar ''float32'')) [0] (Scalar ''float32'')))
      = [(''_hsapy_smem'',
          \<lparr>g_kind = VariableKind, g_type = ArrayTy (NamedTy ''float32'') 0, g_addrspace = 3,
             calling_convention = [], linkage = [], initializer = None\<rparr>)]
   \<and> module_globals (snd (hsail_smem_alloc_array example_env empty_builder
          (sig_smem 1 (Scalar ''float32'')) [0] (Scalar ''float32'')))
      \<noteq> module_globals empty_builder"
proof -
  obtain b' where run:
    "hsail_smem_alloc_array example_env empty_builder (sig_smem 1 (Scalar ''float32''))
       [0] (Scalar ''float32'') = (Inl ValueError_array_length, b')"
    by (simp add: hsail_smem_alloc_array_def generic_array_def add_global_variable_def Let_def)
  from smem_alloc_error_mutates_module[OF run]
  obtain gv where
    "module_globals b' = module_globals empty_builder
       @ [(get_unique_name example_env (map fst (module_globals empty_builder)) ''_hsapy_smem'', gv)]"
    "g_kind gv = VariableKind"
    "g_type gv = ArrayTy (get_data_type example_env (Scalar ''float32'')) (prod_list [0])"
    "g_addrspace gv = SPIR_LOCAL_ADDRSPACE example_env"
    "module_globals b' \<noteq> module_globals empty_builder"
    by blast
  moreover have "module_globals b' = [(''_hsapy_smem'',
          \<lparr>g_kind = VariableKind, g_type = ArrayTy (NamedTy ''float32'') 0, g_addrspace = 3,
             calling_convention = [], linkage = [], initializer = None\<rparr>)]"
    using run
    by (auto simp: hsail_smem_alloc_array_def generic_array_def add_global_variable_def Let_def
        example_env_def empty_builder_def new_global_def)
  ultimately show ?thesis
    using run by simp
qed

text \<open>C10. For the empty shape the shared-memory allocation fails in the reduction over the
  shape, before anything is added to the module; the error is not the non-positive-size
  one.\<close>

theorem smem_alloc_empty_shape:
  "hsail_smem_alloc_array e b sig [] dtype = (Inl TypeError_reduce_empty, b)
   \<and> fst (hsail_smem_alloc_array e b sig [] dtype) \<noteq> Inl ValueError_array_length"
  by (simp add: hsail_smem_alloc_array_def generic_array_def)

text \<open>Evaluated on the sample host.\<close>

theorem smem_alloc_empty_shape_witness:
  "hsail_smem_alloc_array example_env empty_builder (sig_smem 0 (Scalar ''float32'')) []
     (Scalar ''float32'') = (Inl TypeError_reduce_empty, empty_builder)"
  using smem_alloc_empty_shape[of example_env empty_builder "sig_smem 0 (Scalar ''float32'')"
      "Scalar ''float32''"]
  by simp

lemma rstrides_loop_snoc:
  "rstrides_loop s (ys @ [y]) = rstrides_loop s ys @ [y * last (rstrides_loop s ys)]"
  by (simp add: rstrides_loop_def)

lemma rstrides_loop_eq:
  "rstrides_loop s ys = map (\<lambda>i. s * prod_list (take i ys)) [0..<Suc (length ys)]"
proof (induction ys rule: rev_induct)
  case Nil
  show ?case by (simp add: rstrides_loop_def)
next
  case (snoc y ys)
  have l: "last (rstrides_loop s ys) = s * prod_list ys"
    by (simp add: snoc.IH)
  have "map (\<lambda>i. s * prod_list (take i (ys @ [y]))) [0..<Suc (length ys)]
      = map (\<lambda>i. s * prod_list (take i ys)) [0..<Suc (length ys)]"
    by (rule map_cong) auto
  then have "map (\<lambda>i. s * prod_list (take i (ys @ [y]))) [0..<Suc (length (ys @ [y]))]
      = map (\<lambda>i. s * prod_list (take i ys)) [0..<Suc (length ys)] @ [s * prod_list (ys @ [y])]"
    by simp
  with snoc.IH l show ?case
    by (simp add: rstrides_loop_snoc mult.commute mult.left_commute)
qed

lemma prod_list_rev: "prod_list (rev xs) = prod_list xs" for xs :: "int list"
  by (induction xs) (simp_all add: mult.commute)

lemma strides_rev_loop:
  "rev (rstrides_loop s (rev xs)) = map (\<lambda>k. s * prod_list (drop k xs)) [0..<Suc (length xs)]"
proof (rule nth_equalityI)
  show "length (rev (rstrides_loop s (rev xs)))
      = length (map (\<lambda>k. s * prod_list (drop k xs)) [0..<Suc (length xs)])"
    by (simp add: rstrides_loop_eq)
next
  fix k
  assume "k < length (rev (rstrides_loop s (rev xs)))"
  then have k: "k < Suc (length xs)"
    by (simp add: rstrides_loop_eq)
  have len: "length (rstrides_loop s (rev xs)) = Suc (length xs)"
    by (simp add: rstrides_loop_eq)
  have "rev (rstrides_loop s (rev xs)) ! k = rstrides_loop s (rev xs) ! (length xs - k)"
    using k by (simp only: rev_nth len) simp
  also have "\<dots> = map (\<lambda>i. s * prod_list (take i (rev xs))) [0..<Suc (length (rev xs))] ! (length xs - k)"
    by (simp only: rstrides_loop_eq)
  also have "\<dots> = s * prod_list (take (length xs - k) (rev xs))"
  proof -
    have "length xs - k < length [0..<Suc (length (rev xs))]" by simp
    then show ?thesis
      by (simp only: nth_map) (simp del: upt_Suc)
  qed
  also have "take (length xs - k) (rev xs) = rev (drop k xs)"
    by (simp add: rev_drop)
  also have "prod_list (rev (drop k xs)) = prod_list (drop k xs)"
    by (rule prod_list_rev)
  also have "s * prod_list (drop k xs)
      = map (\<lambda>k. s * prod_list (drop k xs)) [0..<Suc (length xs)] ! k"
    using k by (simp del: upt_Suc)
  finally show "rev (rstrides_loop s (rev xs)) ! k
      = map (\<lambda>k. s * prod_list (drop k xs)) [0..<Suc (length xs)] ! k" .
qed

lemma strides_C_contiguous:
  assumes "shape \<noteq> []"
  shows "rev (rstrides_loop s (rev (drop 1 shape)))
         = map (\<lambda>k. s * prod_list (drop (Suc k) shape)) [0..<length shape]"
proof -
  from assms obtain x xs where "shape = x # xs"
    by (cases shape) auto
  then show ?thesis
    by (simp add: strides_rev_loop del: upt_Suc)
qed

text \<open>C8. For a non-empty shape and a dtype of the number domain, the array the shared-memory
  allocation produces has C-contiguous strides: the stride of dimension k is the ABI item size
  times the product of the shape entries after position k; its shape is the requested one.\<close>

theorem smem_alloc_strides:
  assumes "shape \<noteq> []"
    and "dtype \<in> number_domain e"
    and "hsail_smem_alloc_array e b sig shape dtype = (Inr ary, b')"
  shows "\<exists>targetdata. DATALAYOUT e (address_size e) = Some targetdata
           \<and> ary_strides ary =
               PackArray (map (\<lambda>k. Constant (intp e)
                                     (get_abi_size e (get_data_type e dtype) targetdata
                                        * prod_list (drop (Suc k) shape)))
                              [0..<length shape])
           \<and> ary_shape ary = PackArray (map (Constant (intp e)) shape)
           \<and> ary_type ary = Array dtype (length shape) ''C''"
proof -
  from assms(1) have r: "reduce_mul shape = Inr (prod_list shape)"
    by (rule reduce_mul_prod)
  from assms(3) r obtain targetdata where t: "DATALAYOUT e (address_size e) = Some targetdata"
    by (auto simp: hsail_smem_alloc_array_def generic_array_def add_global_variable_def Let_def
          make_array_def case_prod_beta split: option.splits if_splits)
  have s: "rev (rstrides_loop (get_abi_size e (get_data_type e dtype) targetdata)
                 (rev (drop 1 shape)))
         = map (\<lambda>k. get_abi_size e (get_data_type e dtype) targetdata
                        * prod_list (drop (Suc k) shape)) [0..<length shape]"
    by (rule strides_C_contiguous[OF assms(1)])
  from assms(3) r t have "ary_strides ary =
       PackArray (map (Constant (intp e))
         (rev (rstrides_loop (get_abi_size e (get_data_type e dtype) targetdata)
                 (rev (drop 1 shape)))))"
    and "ary_shape ary = PackArray (map (Constant (intp e)) shape)"
    and "ary_type ary = Array dtype (length shape) ''C''"
    by (auto simp: hsail_smem_alloc_array_def generic_array_def add_global_variable_def Let_def
          make_array_def case_prod_beta pack_array_def split: if_splits)
  with t s show ?thesis
    by (simp add: o_def)
qed

text \<open>Evaluated on the sample host.\<close>

theorem smem_alloc_strides_witness:
  "Scalar ''float32'' \<in> number_domain example_env
   \<and> (\<exists>ary b'. hsail_smem_alloc_array example_env empty_builder (sig_smem 3 (Scalar ''float32''))
          [2, 3, 4] (Scalar ''float32'') = (Inr ary, b')
        \<and> ary_strides ary = PackArray [Constant (Scalar ''int64'') 48,
             Constant (Scalar ''int64'') 16, Constant (Scalar ''int64'') 4]
        \<and> ary_shape ary = PackArray [Constant (Scalar ''int64'') 2,
             Constant (Scalar ''int64'') 3, Constant (Scalar ''int64'') 4])"
proof -
  have n: "Scalar ''float32'' \<in> number_domain example_env"
    by (simp add: example_env_def)
  obtain ary b' where run:
    "hsail_smem_alloc_array example_env empty_builder (sig_smem 3 (Scalar ''float32''))
          [2, 3, 4] (Scalar ''float32'') = (Inr ary, b')"
    by (simp add: hsail_smem_alloc_array_def generic_array_def add_global_variable_def Let_def
        make_array_def case_prod_beta example_env_def)
  have ne: "[2, 3, 4 :: int] \<noteq> []" by simp
  from smem_alloc_strides[OF ne n run]
  obtain targetdata where t: "DATALAYOUT example_env (address_size example_env) = Some targetdata"
    and s: "ary_strides ary =
               PackArray (map (\<lambda>k. Constant (intp example_env)
                                     (get_abi_size example_env
                                        (get_data_type example_env (Scalar ''float32'')) targetdata
                                        * prod_list (drop (Suc k) [2, 3, 4])))
                              [0..<length [2, 3, 4 :: int]])"
    and h: "ary_shape ary = PackArray (map (Constant (intp example_env)) [2, 3, 4])"
    by blast
  have u: "[0..<length [2, 3, 4 :: int]] = [0, 1, 2]"
    by code_simp
  from s have "ary_strides ary = PackArray [Constant (Scalar ''int64'') 48,
             Constant (Scalar ''int64'') 16, Constant (Scalar ''int64'') 4]"
    unfolding u by (simp add: example_env_def)
  with h n run show ?thesis
    by (simp add: example_env_def)
qed

end
